theory Spec2Isabelle
  imports Complex_Main
begin

section \<open>Configuration (config.py)\<close>

text \<open>A coordinate reference system is an EPSG code, a bare integer as in the source.\<close>

type_synonym crs = int

definition AZ_STATE_ABBR :: string where
  "AZ_STATE_ABBR = ''AZ''"

definition CRS_GEO :: crs where
  "CRS_GEO = 4326"

definition CRS_UTM :: crs where
  "CRS_UTM = 32612"

definition DEM_RES_M :: nat where
  "DEM_RES_M = 30"

definition DATA_DIR :: string where
  "DATA_DIR = ''data''"

section \<open>Data model\<close>

text \<open>
  A shapely geometry is its coordinate sequence; it carries no CRS of its own. The program
  never computes with a coordinate: it only hands geometries to the projection library.
  \<open>geom\<close> is a geometry together with the CRS its coordinates are expressed in, which is
  what a one-element GeoSeries holds; the tag follows the CRS argument of each call.
\<close>

type_synonym point = "real \<times> real"

type_synonym shape = "point list"

record geom =
  coords :: shape
  geom_crs :: crs

text \<open>
  A GeoDataFrame, column-oriented as in pandas: the attribute columns (label and values, in
  order; labels may repeat), the geometry column, and the CRS (\<open>None\<close> when the frame has
  none).
\<close>

record GeoDataFrame =
  columns :: "(string \<times> string list) list"
  geometry_column :: "shape list"
  gdf_crs :: "crs option"

text \<open>A raster (xarray DataArray with the rio accessor): its cells and its CRS.\<close>

record raster =
  band :: "real list list"
  rio_crs :: "crs option"

text \<open>The road graph OSMnx returns, opaque to the program: its node and edge tables.\<close>

record graph =
  graph_nodes :: GeoDataFrame
  graph_edges :: GeoDataFrame

text \<open>Exceptions, by class. Every \<open>raise\<close> of the source and of the library calls it makes
  is a value \<open>Inl e\<close>.\<close>

datatype exn =
    ValueError string
  | KeyError string
  | AttributeError string
  | CRSError
  | MissingCRS
  | DataSourceError
  | OSError
  | ServiceError string

text \<open>
  Paths are lists of components: \<open>Path(a) / b\<close> appends the component \<open>b\<close>. A file is a
  GeoPackage holding one named layer, or a GeoTIFF.
\<close>

type_synonym path = "string list"

datatype disk_file = GPKG string GeoDataFrame | GTiff raster

datatype source = Elevation | Hydrography | Roads

text \<open>The effects a run performs, in the order it performs them.\<close>

datatype event =
    Mkdir path
  | ReadFile path
  | WriteFile path
  | BoundaryQuery string
  | SourceQuery source geom

record world =
  dirs :: "path set"
  files :: "path \<rightharpoonup> disk_file"
  trace :: "event list"

text \<open>
  What lies outside the repository and is taken as a parameter: the four remote services
  (each may raise), OSMnx's conversion of a graph to tables, the projection library (which
  codes it knows, and the coordinate and raster transformations between two of them), and
  whether the operating system refuses a write at a path.
\<close>

record env =
  wbd_bysql :: "string \<Rightarrow> crs \<Rightarrow> string \<Rightarrow> exn + GeoDataFrame"
  py3dep_get_dem :: "shape \<Rightarrow> nat \<Rightarrow> exn + raster"
  nhdplushr_bygeom :: "string \<Rightarrow> crs \<Rightarrow> shape \<Rightarrow> crs \<Rightarrow> exn + GeoDataFrame"
  ox_graph_from_polygon :: "shape \<Rightarrow> string \<Rightarrow> exn + graph"
  ox_graph_to_gdfs :: "graph \<Rightarrow> exn + GeoDataFrame \<times> GeoDataFrame"
  known_crs :: "crs \<Rightarrow> bool"
  proj :: "crs \<Rightarrow> crs \<Rightarrow> point \<Rightarrow> point"
  warp :: "crs \<Rightarrow> crs \<Rightarrow> real list list \<Rightarrow> real list list"
  write_fails :: "path \<Rightarrow> bool"

section \<open>Library operations the source calls\<close>

text \<open>\<open>gpd.GeoSeries([geometry], crs=c)\<close>: the CRS is resolved when the series is built.\<close>

definition GeoSeries :: "env \<Rightarrow> shape \<Rightarrow> crs \<Rightarrow> exn + geom" where
  "GeoSeries e g c =
     (if known_crs e c then Inr \<lparr>coords = g, geom_crs = c\<rparr> else Inl CRSError)"

text \<open>\<open>GeoSeries.to_crs(c)\<close>: a series already in \<open>c\<close> is returned as it is.\<close>

definition series_to_crs :: "env \<Rightarrow> geom \<Rightarrow> crs \<Rightarrow> exn + geom" where
  "series_to_crs e s c =
     (if \<not> known_crs e c then Inl CRSError
      else if geom_crs s = c then Inr s
      else Inr \<lparr>coords = map (proj e (geom_crs s) c) (coords s), geom_crs = c\<rparr>)"

text \<open>\<open>GeoDataFrame.to_crs(c)\<close>: a frame with no CRS cannot be transformed.\<close>

definition frame_to_crs :: "env \<Rightarrow> GeoDataFrame \<Rightarrow> crs \<Rightarrow> exn + GeoDataFrame" where
  "frame_to_crs e gdf c =
     (case gdf_crs gdf of
        None \<Rightarrow> Inl (ValueError ''Cannot transform naive geometries.  Please set a crs on the object first.'')
      | Some src \<Rightarrow>
          if \<not> known_crs e c then Inl CRSError
          else if src = c then Inr gdf
          else Inr (gdf\<lparr>geometry_column := map (map (proj e src c)) (geometry_column gdf), gdf_crs := Some c\<rparr>))"

text \<open>\<open>DataArray.rio.reproject(c)\<close>.\<close>

definition rio_reproject :: "env \<Rightarrow> raster \<Rightarrow> crs \<Rightarrow> exn + raster" where
  "rio_reproject e dem c =
     (case rio_crs dem of
        None \<Rightarrow> Inl MissingCRS
      | Some src \<Rightarrow>
          if \<not> known_crs e c then Inl CRSError
          else Inr \<lparr>band = warp e src c (band dem), rio_crs = Some c\<rparr>)"

text \<open>\<open>DataFrame.rename(columns=m)\<close>: a label in \<open>m\<close> is replaced, any other is kept.\<close>

definition rename :: "(string \<rightharpoonup> string) \<Rightarrow> GeoDataFrame \<Rightarrow> GeoDataFrame" where
  "rename m gdf =
     gdf\<lparr>columns := map (\<lambda>(l, vs). (case m l of Some l' \<Rightarrow> l' | None \<Rightarrow> l, vs)) (columns gdf)\<rparr>"

text \<open>\<open>Path.mkdir(parents=True, exist_ok=True)\<close>: the directory and its ancestors (the
  non-empty prefixes of the path, the path itself last) exist afterwards.\<close>

fun ancestors :: "path \<Rightarrow> path list" where
  "ancestors [] = []"
| "ancestors (c # cs) = [c] # map ((#) c) (ancestors cs)"

definition mkdir :: "path \<Rightarrow> world \<Rightarrow> world" where
  "mkdir p w =
     w\<lparr>dirs := dirs w \<union> set (ancestors p),
       trace := trace w @ [Mkdir p]\<rparr>"

definition exists :: "world \<Rightarrow> path \<Rightarrow> bool" where
  "exists w p = (files w p \<noteq> None \<or> p \<in> dirs w)"

text \<open>\<open>gpd.read_file(p)\<close>: the layer of the GeoPackage at \<open>p\<close>.\<close>

definition read_file :: "path \<Rightarrow> world \<Rightarrow> (exn + GeoDataFrame) \<times> world" where
  "read_file p w =
     (case files w p of
        Some (GPKG layer gdf) \<Rightarrow> Inr gdf
      | _ \<Rightarrow> Inl DataSourceError,
      w\<lparr>trace := trace w @ [ReadFile p]\<rparr>)"

text \<open>\<open>gdf.to_file(p, driver="GPKG", layer=l)\<close> and \<open>dem.rio.to_raster(p)\<close>: the file at
  \<open>p\<close> is replaced, unless the write is refused.\<close>

definition write_file :: "env \<Rightarrow> path \<Rightarrow> disk_file \<Rightarrow> world \<Rightarrow> (exn + unit) \<times> world" where
  "write_file e p f w =
     (if write_fails e p then (Inl OSError, w\<lparr>trace := trace w @ [WriteFile p]\<rparr>)
      else (Inr (), w\<lparr>files := (files w)(p \<mapsto> f), trace := trace w @ [WriteFile p]\<rparr>))"

definition to_file :: "env \<Rightarrow> GeoDataFrame \<Rightarrow> path \<Rightarrow> string \<Rightarrow> world \<Rightarrow> (exn + unit) \<times> world" where
  "to_file e gdf p layer w = write_file e p (GPKG layer gdf) w"

definition to_raster :: "env \<Rightarrow> raster \<Rightarrow> path \<Rightarrow> world \<Rightarrow> (exn + unit) \<times> world" where
  "to_raster e dem p w = write_file e p (GTiff dem) w"

section \<open>Boundary index (huc10\_index.py)\<close>

definition WBD_LAYER :: string where
  "WBD_LAYER = ''huc10''"

definition az_sql :: string where
  "az_sql = ''States LIKE '' @ [CHR 0x27] @ ''%'' @ AZ_STATE_ABBR @ ''%'' @ [CHR 0x27]"

definition fetch_az_huc10_index :: "env \<Rightarrow> world \<Rightarrow> (exn + GeoDataFrame) \<times> world" where
  "fetch_az_huc10_index e w =
     (let sql = az_sql;
          w1 = w\<lparr>trace := trace w @ [BoundaryQuery sql]\<rparr>
      in case wbd_bysql e WBD_LAYER CRS_GEO sql of
           Inl err \<Rightarrow> (Inl err, w1)
         | Inr gdf \<Rightarrow> (Inr (rename [''HUC10'' \<mapsto> ''huc10'', ''Name'' \<mapsto> ''name''] gdf), w1))"

definition index_path :: path where
  "index_path = [DATA_DIR] @ [''az_huc10.gpkg'']"

definition load_or_build_az_huc10_index :: "env \<Rightarrow> world \<Rightarrow> (exn + GeoDataFrame) \<times> world" where
  "load_or_build_az_huc10_index e w =
     (let data_dir = [DATA_DIR];
          w1 = mkdir data_dir w
      in if exists w1 index_path then read_file index_path w1
         else case fetch_az_huc10_index e w1 of
                (Inl err, w2) \<Rightarrow> (Inl err, w2)
              | (Inr gdf, w2) \<Rightarrow>
                  (case to_file e gdf index_path ''huc10'' w2 of
                     (Inl err, w3) \<Rightarrow> (Inl err, w3)
                   | (Inr u, w3) \<Rightarrow> (Inr gdf, w3)))"

text \<open>
  \<open>gdf["huc10"]\<close>, as far as line 49 goes: \<open>KeyError\<close> when no column has the label;
  when several have it the selection is a frame rather than a series, which \<open>.loc\<close>
  refuses as a key.
\<close>

definition huc10_column :: "GeoDataFrame \<Rightarrow> exn + string list" where
  "huc10_column gdf =
     (case filter (\<lambda>(l, vs). l = ''huc10'') (columns gdf) of
        [] \<Rightarrow> Inl (KeyError ''huc10'')
      | [(l, vs)] \<Rightarrow> Inr vs
      | _ \<Rightarrow> Inl (ValueError ''Cannot index with multidimensional key''))"

text \<open>\<open>row\<close> is the geometry column of the selected rows, in the order of the index.\<close>

definition get_huc10_geometry :: "env \<Rightarrow> string \<Rightarrow> crs \<Rightarrow> world \<Rightarrow> (exn + geom) \<times> world" where
  "get_huc10_geometry e huc10_id crs w =
     (case load_or_build_az_huc10_index e w of
        (Inl err, w1) \<Rightarrow> (Inl err, w1)
      | (Inr gdf, w1) \<Rightarrow>
          (case huc10_column gdf of
             Inl err \<Rightarrow> (Inl err, w1)
           | Inr vs \<Rightarrow>
               (let row = map snd (filter (\<lambda>(v, g). v = huc10_id) (zip vs (geometry_column gdf)))
                in case row of
                     [] \<Rightarrow> (Inl (ValueError (''HUC10 '' @ huc10_id @ '' not found in Arizona index'')), w1)
                   | g # rest \<Rightarrow>
                       (case gdf_crs gdf of
                          None \<Rightarrow> (Inl (AttributeError ''to_epsg''), w1)
                        | Some native \<Rightarrow>
                            if native \<noteq> crs then
                              (case GeoSeries e g native of
                                 Inl err \<Rightarrow> (Inl err, w1)
                               | Inr s \<Rightarrow>
                                   (case series_to_crs e s crs of
                                      Inl err \<Rightarrow> (Inl err, w1)
                                    | Inr s' \<Rightarrow> (Inr s', w1)))
                            else (Inr \<lparr>coords = g, geom_crs = native\<rparr>, w1)))))"

section \<open>Source fetchers (dem.py, flowlines.py, roads.py)\<close>

text \<open>
  The three fetchers open with the same statement: the geometry is taken to be in
  \<open>geometry_crs\<close> and is transformed when that is not \<open>CRS_GEO\<close>. Each then logs the
  geometry it hands to its service.
\<close>

definition get_dem_for_geometry :: "env \<Rightarrow> shape \<Rightarrow> crs \<Rightarrow> world \<Rightarrow> (exn + raster) \<times> world" where
  "get_dem_for_geometry e geometry geometry_crs w =
     (case (if geometry_crs \<noteq> CRS_GEO
            then (case GeoSeries e geometry geometry_crs of
                    Inl err \<Rightarrow> Inl err
                  | Inr s \<Rightarrow> series_to_crs e s CRS_GEO)
            else Inr \<lparr>coords = geometry, geom_crs = geometry_crs\<rparr>) of
        Inl err \<Rightarrow> (Inl err, w)
      | Inr geom_ll \<Rightarrow>
          (let w1 = w\<lparr>trace := trace w @ [SourceQuery Elevation geom_ll]\<rparr>
           in case py3dep_get_dem e (coords geom_ll) DEM_RES_M of
                Inl err \<Rightarrow> (Inl err, w1)
              | Inr dem \<Rightarrow>
                  (case rio_reproject e dem CRS_UTM of
                     Inl err \<Rightarrow> (Inl err, w1)
                   | Inr dem_utm \<Rightarrow> (Inr dem_utm, w1))))"

definition get_flowlines_for_geometry ::
  "env \<Rightarrow> shape \<Rightarrow> crs \<Rightarrow> world \<Rightarrow> (exn + GeoDataFrame) \<times> world" where
  "get_flowlines_for_geometry e geometry geometry_crs w =
     (case (if geometry_crs \<noteq> CRS_GEO
            then (case GeoSeries e geometry geometry_crs of
                    Inl err \<Rightarrow> Inl err
                  | Inr s \<Rightarrow> series_to_crs e s CRS_GEO)
            else Inr \<lparr>coords = geometry, geom_crs = geometry_crs\<rparr>) of
        Inl err \<Rightarrow> (Inl err, w)
      | Inr geom_ll \<Rightarrow>
          (let w1 = w\<lparr>trace := trace w @ [SourceQuery Hydrography geom_ll]\<rparr>
           in case nhdplushr_bygeom e ''flowline'' CRS_GEO (coords geom_ll) CRS_GEO of
                Inl err \<Rightarrow> (Inl err, w1)
              | Inr fl \<Rightarrow>
                  (case frame_to_crs e fl CRS_UTM of
                     Inl err \<Rightarrow> (Inl err, w1)
                   | Inr fl_utm \<Rightarrow> (Inr fl_utm, w1))))"

definition get_roads_for_geometry ::
  "env \<Rightarrow> shape \<Rightarrow> crs \<Rightarrow> world \<Rightarrow> (exn + GeoDataFrame) \<times> world" where
  "get_roads_for_geometry e geometry geometry_crs w =
     (case (if geometry_crs \<noteq> CRS_GEO
            then (case GeoSeries e geometry geometry_crs of
                    Inl err \<Rightarrow> Inl err
                  | Inr s \<Rightarrow> series_to_crs e s CRS_GEO)
            else Inr \<lparr>coords = geometry, geom_crs = geometry_crs\<rparr>) of
        Inl err \<Rightarrow> (Inl err, w)
      | Inr geom_ll \<Rightarrow>
          (let w1 = w\<lparr>trace := trace w @ [SourceQuery Roads geom_ll]\<rparr>
           in case ox_graph_from_polygon e (coords geom_ll) ''all_public'' of
                Inl err \<Rightarrow> (Inl err, w1)
              | Inr G \<Rightarrow>
                  (case ox_graph_to_gdfs e G of
                     Inl err \<Rightarrow> (Inl err, w1)
                   | Inr (nodes, edges) \<Rightarrow>
                       (case frame_to_crs e edges CRS_UTM of
                          Inl err \<Rightarrow> (Inl err, w1)
                        | Inr roads_utm \<Rightarrow> (Inr roads_utm, w1)))))"

section \<open>Output persistence (io\_utils.py)\<close>

definition make_huc_output_dir :: "string \<Rightarrow> world \<Rightarrow> path \<times> world" where
  "make_huc_output_dir huc10_id w =
     (let base = [DATA_DIR] @ [''huc10_'' @ huc10_id]
      in (base, mkdir base w))"

definition save_roads :: "env \<Rightarrow> GeoDataFrame \<Rightarrow> path \<Rightarrow> world \<Rightarrow> (exn + path) \<times> world" where
  "save_roads e roads_gdf out_dir w =
     (let roads_path = out_dir @ [''roads.gpkg'']
      in case to_file e roads_gdf roads_path ''roads'' w of
           (Inl err, w1) \<Rightarrow> (Inl err, w1)
         | (Inr u, w1) \<Rightarrow> (Inr roads_path, w1))"

definition save_flowlines :: "env \<Rightarrow> GeoDataFrame \<Rightarrow> path \<Rightarrow> world \<Rightarrow> (exn + path) \<times> world" where
  "save_flowlines e flow_gdf out_dir w =
     (let flow_path = out_dir @ [''flowlines.gpkg'']
      in case to_file e flow_gdf flow_path ''flowlines'' w of
           (Inl err, w1) \<Rightarrow> (Inl err, w1)
         | (Inr u, w1) \<Rightarrow> (Inr flow_path, w1))"

definition save_dem :: "env \<Rightarrow> raster \<Rightarrow> path \<Rightarrow> world \<Rightarrow> (exn + path) \<times> world" where
  "save_dem e dem_da out_dir w =
     (let dem_path = out_dir @ [''dem_30m.tif'']
      in case to_raster e dem_da dem_path w of
           (Inl err, w1) \<Rightarrow> (Inl err, w1)
         | (Inr u, w1) \<Rightarrow> (Inr dem_path, w1))"

section \<open>The download of one basin (app\_streamlit.py, main)\<close>

text \<open>
  What \<open>main\<close> does for a selected id once the button is pressed, without the user
  interface: the three fetches of lines 88 to 90, the persistence of lines 93 to 96, and the
  whole request from the resolution of the boundary at line 71. The loading of the index
  for the selection list (line 57) comes before the request and is not part of it; the id
  is the non-empty selection. No statement of \<open>main\<close> catches an exception, so the first
  error ends the run.
\<close>

record fetched =
  dem_utm :: raster
  flow_utm :: GeoDataFrame
  roads_utm :: GeoDataFrame

record saved =
  out_dir :: path
  dem_path :: path
  flow_path :: path
  roads_path :: path

definition main_fetch :: "env \<Rightarrow> geom \<Rightarrow> world \<Rightarrow> (exn + fetched) \<times> world" where
  "main_fetch e geometry_4326 w =
     (case get_dem_for_geometry e (coords geometry_4326) CRS_GEO w of
        (Inl err, w1) \<Rightarrow> (Inl err, w1)
      | (Inr dem, w1) \<Rightarrow>
          (case get_flowlines_for_geometry e (coords geometry_4326) CRS_GEO w1 of
             (Inl err, w2) \<Rightarrow> (Inl err, w2)
           | (Inr flow, w2) \<Rightarrow>
               (case get_roads_for_geometry e (coords geometry_4326) CRS_GEO w2 of
                  (Inl err, w3) \<Rightarrow> (Inl err, w3)
                | (Inr roads, w3) \<Rightarrow>
                    (Inr \<lparr>dem_utm = dem, flow_utm = flow, roads_utm = roads\<rparr>, w3))))"

definition main_persist :: "env \<Rightarrow> string \<Rightarrow> fetched \<Rightarrow> world \<Rightarrow> (exn + saved) \<times> world" where
  "main_persist e selected_huc10 d w =
     (case make_huc_output_dir selected_huc10 w of
        (dir, w1) \<Rightarrow>
          (case save_dem e (dem_utm d) dir w1 of
             (Inl err, w2) \<Rightarrow> (Inl err, w2)
           | (Inr dp, w2) \<Rightarrow>
               (case save_flowlines e (flow_utm d) dir w2 of
                  (Inl err, w3) \<Rightarrow> (Inl err, w3)
                | (Inr fp, w3) \<Rightarrow>
                    (case save_roads e (roads_utm d) dir w3 of
                       (Inl err, w4) \<Rightarrow> (Inl err, w4)
                     | (Inr rp, w4) \<Rightarrow>
                         (Inr \<lparr>out_dir = dir, dem_path = dp, flow_path = fp, roads_path = rp\<rparr>,
                          w4)))))"

definition main_download :: "env \<Rightarrow> string \<Rightarrow> world \<Rightarrow> (exn + fetched \<times> saved) \<times> world" where
  "main_download e selected_huc10 w =
     (case get_huc10_geometry e selected_huc10 CRS_GEO w of
        (Inl err, w1) \<Rightarrow> (Inl err, w1)
      | (Inr geometry_4326, w1) \<Rightarrow>
          (case main_fetch e geometry_4326 w1 of
             (Inl err, w2) \<Rightarrow> (Inl err, w2)
           | (Inr d, w2) \<Rightarrow>
               (case main_persist e selected_huc10 d w2 of
                  (Inl err, w3) \<Rightarrow> (Inl err, w3)
                | (Inr s, w3) \<Rightarrow> (Inr (d, s), w3))))"

section \<open>Notions used to state the properties\<close>

text \<open>The label a column has after the renaming of \<open>fetch_az_huc10_index\<close>.\<close>

definition normal_label :: "string \<Rightarrow> string" where
  "normal_label l = (if l = ''HUC10'' then ''huc10'' else if l = ''Name'' then ''name'' else l)"

text \<open>
  The geometry a fetcher is expected to query with: the input itself when
  \<open>geometry_crs\<close> is the geographic code, its transformation to that code otherwise;
  in both cases coordinates in \<open>CRS_GEO\<close>.
\<close>

definition query_geometry :: "env \<Rightarrow> shape \<Rightarrow> crs \<Rightarrow> geom" where
  "query_geometry e geometry geometry_crs =
     \<lparr>coords = (if geometry_crs = CRS_GEO then geometry
                 else map (proj e geometry_crs CRS_GEO) geometry),
      geom_crs = CRS_GEO\<rparr>"

text \<open>
  \<open>queries_only w w'\<close>: between the two states no directory was made and no file
  written, and every effect logged is a query to a source service.
\<close>

definition is_query :: "event \<Rightarrow> bool" where
  "is_query ev = (case ev of SourceQuery s q \<Rightarrow> True | _ \<Rightarrow> False)"

definition queries_only :: "world \<Rightarrow> world \<Rightarrow> bool" where
  "queries_only w w' =
     (dirs w' = dirs w \<and> files w' = files w \<and>
      take (length (trace w)) (trace w') = trace w \<and>
      list_all is_query (drop (length (trace w)) (trace w')))"

section \<open>A concrete environment\<close>

text \<open>
  Small concrete data on which the definitions above can be run: a boundary service
  answering with three columns, an index of two basins, an index in which one id occurs
  twice, three services answering with one raster and one feature each, and a projection
  library that knows four codes and moves every coordinate by one unit.
\<close>

definition demo_raw :: GeoDataFrame where
  "demo_raw =
     \<lparr>columns = [(''HUC10'', [''1502001602'', ''1502001603'']),
                 (''Name'', [''Upper'', ''Lower'']),
                 (''States'', [''AZ'', ''AZ,NM''])],
      geometry_column = [[(0, 0), (1, 0), (1, 1)], [(2, 2), (3, 2), (3, 3)]],
      gdf_crs = Some 4326\<rparr>"

definition demo_index :: GeoDataFrame where
  "demo_index =
     \<lparr>columns = [(''huc10'', [''1502001602'', ''1502001603'']),
                 (''name'', [''Upper'', ''Lower''])],
      geometry_column = [[(0, 0), (1, 0), (1, 1)], [(2, 2), (3, 2), (3, 3)]],
      gdf_crs = Some 4326\<rparr>"

definition dup_index :: GeoDataFrame where
  "dup_index =
     \<lparr>columns = [(''huc10'', [''1502001603'', ''1502001602'', ''1502001602'']),
                 (''name'', [''Lower'', ''Upper'', ''Again''])],
      geometry_column = [[(2, 2), (3, 2), (3, 3)], [(0, 0), (1, 0), (1, 1)], [(5, 5), (6, 5), (6, 6)]],
      gdf_crs = Some 4326\<rparr>"

definition upper_case_index :: GeoDataFrame where
  "upper_case_index =
     \<lparr>columns = [(''HUC10'', [''1502001602'']), (''Name'', [''Upper''])],
      geometry_column = [[(0, 0), (1, 0), (1, 1)]],
      gdf_crs = Some 4326\<rparr>"

definition demo_dem :: raster where
  "demo_dem = \<lparr>band = [[1, 2], [3, 4]], rio_crs = Some 4269\<rparr>"

definition demo_flow :: GeoDataFrame where
  "demo_flow =
     \<lparr>columns = [(''gnis_name'', [''Salt River''])],
      geometry_column = [[(0, 0), (1, 1)]],
      gdf_crs = Some 4326\<rparr>"

definition demo_edges :: GeoDataFrame where
  "demo_edges =
     \<lparr>columns = [(''highway'', [''track''])],
      geometry_column = [[(0, 1), (1, 0)]],
      gdf_crs = Some 4326\<rparr>"

definition demo_nodes :: GeoDataFrame where
  "demo_nodes =
     \<lparr>columns = [(''osmid'', [''1'', ''2''])],
      geometry_column = [[(0, 1)], [(1, 0)]],
      gdf_crs = Some 4326\<rparr>"

definition empty_frame :: GeoDataFrame where
  "empty_frame = \<lparr>columns = [], geometry_column = [], gdf_crs = Some 4326\<rparr>"

definition demo_env :: env where
  "demo_env =
     \<lparr>wbd_bysql = (\<lambda>layer c sql. Inr demo_raw),
      py3dep_get_dem = (\<lambda>g res. Inr demo_dem),
      nhdplushr_bygeom = (\<lambda>layer c g geo_crs. Inr demo_flow),
      ox_graph_from_polygon = (\<lambda>g network_type. Inr \<lparr>graph_nodes = demo_nodes, graph_edges = demo_edges\<rparr>),
      ox_graph_to_gdfs = (\<lambda>G. Inr (graph_nodes G, graph_edges G)),
      known_crs = (\<lambda>c. c = 4326 \<or> c = 32612 \<or> c = 4269 \<or> c = 26912),
      proj = (\<lambda>src dst (x, y). (x + 1, y + 1)),
      warp = (\<lambda>src dst cells. cells),
      write_fails = (\<lambda>p. False)\<rparr>"



text \<open>The same environment with the road service unreachable, and with a disk that refuses
  the flowlines file of one basin.\<close>

definition env_roads_down :: env where
  "env_roads_down =
     demo_env\<lparr>ox_graph_from_polygon := (\<lambda>g network_type. Inl (ServiceError ''ConnectionError''))\<rparr>"

definition env_flow_unwritable :: env where
  "env_flow_unwritable =
     demo_env\<lparr>write_fails := (\<lambda>p. p = [''data'', ''huc10_1502001602'', ''flowlines.gpkg''])\<rparr>"

text \<open>The same environment with a boundary service that labels the name column
  \<open>HU_10_NAME\<close>, the other field name the comment of \<open>fetch_az_huc10_index\<close> expects.\<close>

definition alt_raw :: GeoDataFrame where
  "alt_raw =
     \<lparr>columns = [(''HUC10'', [''1502001602'']), (''HU_10_NAME'', [''Upper''])],
      geometry_column = [[(0, 0), (1, 0), (1, 1)]],
      gdf_crs = Some 4326\<rparr>"

definition env_alt_labels :: env where
  "env_alt_labels = demo_env\<lparr>wbd_bysql := (\<lambda>layer c sql. Inr alt_raw)\<rparr>"

definition world0 :: world where
  "world0 = \<lparr>dirs = {}, files = Map.empty, trace = []\<rparr>"

definition world_cached :: "GeoDataFrame \<Rightarrow> world" where
  "world_cached gdf =
     \<lparr>dirs = {[''data'']}, files = [index_path \<mapsto> GPKG ''huc10'' gdf], trace = []\<rparr>"

text \<open>Output of an earlier run for one basin, already on disk beside the index, and the
  artifacts of a later one.\<close>

definition old_dem :: raster where
  "old_dem = \<lparr>band = [[9, 9], [9, 9]], rio_crs = Some 32612\<rparr>"

definition world_prior :: world where
  "world_prior =
     \<lparr>dirs = {[''data''], [''data'', ''huc10_1502001602'']},
      files = [index_path \<mapsto> GPKG ''huc10'' demo_index,
               [''data'', ''huc10_1502001602'', ''dem_30m.tif''] \<mapsto> GTiff old_dem,
               [''data'', ''huc10_1502001602'', ''flowlines.gpkg''] \<mapsto> GPKG ''flowlines'' empty_frame,
               [''data'', ''huc10_1502001602'', ''roads.gpkg''] \<mapsto> GPKG ''roads'' empty_frame],
      trace = []\<rparr>"

definition demo_fetched :: fetched where
  "demo_fetched = \<lparr>dem_utm = old_dem, flow_utm = demo_flow, roads_utm = demo_edges\<rparr>"

section \<open>The file system and the index loader\<close>

lemma index_path_not_data: "index_path \<noteq> [DATA_DIR]"
  by (simp add: index_path_def)

lemma mkdir_fields:
  "files (mkdir p w) = files w"
  "trace (mkdir p w) = trace w @ [Mkdir p]"
  by (simp_all add: mkdir_def)

lemma dirs_mkdir_data: "dirs (mkdir [DATA_DIR] w) = insert [DATA_DIR] (dirs w)"
  by (simp add: mkdir_def)

lemma exists_mkdir_data: "exists (mkdir [DATA_DIR] w) index_path = exists w index_path"
  by (auto simp: exists_def mkdir_fields dirs_mkdir_data index_path_def)

lemma load_hit:
  assumes "files w index_path = Some (GPKG layer gdf)"
  shows "load_or_build_az_huc10_index e w =
           (Inr gdf, (mkdir [DATA_DIR] w)\<lparr>trace := trace w @ [Mkdir [DATA_DIR], ReadFile index_path]\<rparr>)"
  using assms
  by (simp add: load_or_build_az_huc10_index_def Let_def exists_def read_file_def mkdir_fields)

lemma load_miss:
  assumes "\<not> exists w index_path"
      and "wbd_bysql e WBD_LAYER CRS_GEO az_sql = Inr raw"
      and "\<not> write_fails e index_path"
  shows "load_or_build_az_huc10_index e w =
           (Inr (rename [''HUC10'' \<mapsto> ''huc10'', ''Name'' \<mapsto> ''name''] raw),
            (mkdir [DATA_DIR] w)
              \<lparr>files := (files w)(index_path \<mapsto>
                   GPKG ''huc10'' (rename [''HUC10'' \<mapsto> ''huc10'', ''Name'' \<mapsto> ''name''] raw)),
               trace := trace w @ [Mkdir [DATA_DIR], BoundaryQuery az_sql, WriteFile index_path]\<rparr>)"
  using assms
  by (simp add: load_or_build_az_huc10_index_def Let_def exists_mkdir_data
      fetch_az_huc10_index_def to_file_def write_file_def mkdir_fields)

lemma load_success:
  assumes "load_or_build_az_huc10_index e w = (Inr gdf, w1)"
  shows "(\<exists>layer. files w index_path = Some (GPKG layer gdf) \<and> files w1 = files w) \<or>
         (files w index_path = None \<and> files w1 = (files w)(index_path \<mapsto> GPKG ''huc10'' gdf))"
  using assms
  by (auto simp: load_or_build_az_huc10_index_def Let_def exists_def read_file_def mkdir_fields
      fetch_az_huc10_index_def to_file_def write_file_def
      split: if_splits option.splits disk_file.splits sum.splits prod.splits)

lemma load_again:
  assumes "load_or_build_az_huc10_index e w = (Inr gdf, w1)"
  shows "\<exists>w2. load_or_build_az_huc10_index e' w1 = (Inr gdf, w2) \<and> files w2 = files w1"
proof -
  from load_success [OF assms] obtain layer where "files w1 index_path = Some (GPKG layer gdf)"
    by auto
  then show ?thesis
    by (simp add: load_hit mkdir_fields)
qed

lemma first_match:
  assumes "huc10_id \<notin> fst ` set pre"
  shows "map snd (filter (\<lambda>(v, g). v = huc10_id) (pre @ (huc10_id, g) # post)) =
           g # map snd (filter (\<lambda>(v, g). v = huc10_id) post)"
proof -
  from assms have "filter (\<lambda>(v, g). v = huc10_id) pre = []"
    by (induction pre) auto
  then show ?thesis by simp
qed

lemma no_match:
  assumes "huc10_id \<notin> set vs"
  shows "filter (\<lambda>(v, g). v = huc10_id) (zip vs gs) = []"
  using assms by (auto simp: filter_empty_conv dest: set_zip_leftD)

lemma rename_keeps_rows:
  "map snd (columns (rename m gdf)) = map snd (columns gdf)"
  "geometry_column (rename m gdf) = geometry_column gdf"
  "gdf_crs (rename m gdf) = gdf_crs gdf"
  by (simp_all add: rename_def split_def)

lemma resolve_present:
  assumes load: "load_or_build_az_huc10_index e w = (Inr gdf, w1)"
      and col: "huc10_column gdf = Inr vs"
      and rows: "zip vs (geometry_column gdf) = pre @ (huc10_id, g) # post"
      and first: "huc10_id \<notin> fst ` set pre"
      and native: "gdf_crs gdf = Some native"
      and known: "native \<noteq> crs \<longrightarrow> known_crs e native \<and> known_crs e crs"
  shows "get_huc10_geometry e huc10_id crs w =
           (Inr \<lparr>coords = (if native = crs then g else map (proj e native crs) g),
                 geom_crs = crs\<rparr>, w1)"
proof -
  have row: "map snd (filter (\<lambda>(v, g). v = huc10_id) (zip vs (geometry_column gdf))) =
               g # map snd (filter (\<lambda>(v, g). v = huc10_id) post)"
    unfolding rows by (rule first_match [OF first])
  show ?thesis
    using known
    by (simp add: get_huc10_geometry_def load col row native GeoSeries_def series_to_crs_def)
qed

lemma rename_labels:
  "map fst (columns (rename [''HUC10'' \<mapsto> ''huc10'', ''Name'' \<mapsto> ''name''] gdf)) =
     map normal_label (map fst (columns gdf))"
  by (auto simp: rename_def normal_label_def)

lemma az_sql_text: "az_sql = ''States LIKE '' @ [CHR 0x27] @ ''%AZ%'' @ [CHR 0x27]"
  by (simp add: az_sql_def AZ_STATE_ABBR_def)

section \<open>Resolving a basin id\<close>

text \<open>
  Claim C2. For every id absent from the boundary index, \<open>get_huc10_geometry\<close> fails with
  the not-found error (the \<open>ValueError\<close> of line 52, whose message names the id), returns
  no geometry, and leaves the persisted index file unchanged. The index is the frame the
  loader returns, and an id is absent from it when it is not a value of its \<open>huc10\<close>
  column. The run ends in the state the loader left: when an index file was on disk
  before the call, no file has changed; when none was, the loader has built and written
  it, and that is the only file written.
\<close>

theorem resolve_unknown_id:
  assumes load: "load_or_build_az_huc10_index e w = (Inr gdf, w1)"
      and col: "huc10_column gdf = Inr vs"
      and absent: "huc10_id \<notin> set vs"
  shows "get_huc10_geometry e huc10_id crs w =
           (Inl (ValueError (''HUC10 '' @ huc10_id @ '' not found in Arizona index'')), w1) \<and>
         (\<forall>g. fst (get_huc10_geometry e huc10_id crs w) \<noteq> Inr g) \<and>
         (files w index_path \<noteq> None \<longrightarrow> files w1 = files w) \<and>
         (files w index_path = None \<longrightarrow>
            files w1 = (files w)(index_path \<mapsto> GPKG ''huc10'' gdf))"
proof -
  have r: "get_huc10_geometry e huc10_id crs w =
           (Inl (ValueError (''HUC10 '' @ huc10_id @ '' not found in Arizona index'')), w1)"
    by (simp add: get_huc10_geometry_def load col no_match [OF absent])
  have unchanged: "files w index_path \<noteq> None \<longrightarrow> files w1 = files w"
    and created: "files w index_path = None \<longrightarrow>
            files w1 = (files w)(index_path \<mapsto> GPKG ''huc10'' gdf)"
    using load_success [OF load] by auto
  show ?thesis
    using r unchanged created by simp
qed

theorem resolve_unknown_id_witness:
  "load_or_build_az_huc10_index demo_env (world_cached demo_index) =
     (Inr demo_index,
      \<lparr>dirs = {[''data'']}, files = [index_path \<mapsto> GPKG ''huc10'' demo_index],
       trace = [Mkdir [''data''], ReadFile index_path]\<rparr>) \<and>
   huc10_column demo_index = Inr [''1502001602'', ''1502001603''] \<and>
   ''not-a-real-id'' \<notin> set [''1502001602'', ''1502001603''] \<and>
   get_huc10_geometry demo_env ''not-a-real-id'' CRS_GEO (world_cached demo_index) =
     (Inl (ValueError ''HUC10 not-a-real-id not found in Arizona index''),
      \<lparr>dirs = {[''data'']}, files = [index_path \<mapsto> GPKG ''huc10'' demo_index],
       trace = [Mkdir [''data''], ReadFile index_path]\<rparr>) \<and>
   files \<lparr>dirs = {[''data'']}, files = [index_path \<mapsto> GPKG ''huc10'' demo_index],
       trace = [Mkdir [''data''], ReadFile index_path]\<rparr> = files (world_cached demo_index)"
proof -
  let ?w1 = "\<lparr>dirs = {[''data'']}, files = [index_path \<mapsto> GPKG ''huc10'' demo_index],
       trace = [Mkdir [''data''], ReadFile index_path]\<rparr>"
  have load: "load_or_build_az_huc10_index demo_env (world_cached demo_index) = (Inr demo_index, ?w1)"
    by (simp add: load_or_build_az_huc10_index_def world_cached_def mkdir_def exists_def
        read_file_def DATA_DIR_def Let_def)
  have col: "huc10_column demo_index = Inr [''1502001602'', ''1502001603'']"
    by (simp add: huc10_column_def demo_index_def)
  have absent: "''not-a-real-id'' \<notin> set [''1502001602'', ''1502001603'']"
    by simp
  from resolve_unknown_id [OF load col absent, of CRS_GEO]
  show ?thesis
    using load col absent by (simp add: world_cached_def)
qed

text \<open>
  Claim C5. For every id present in the index and every requested CRS,
  \<open>get_huc10_geometry\<close> returns a non-empty geometry in the requested CRS: the geometry
  of the index as it is when the native CRS is the requested one, its reprojection
  otherwise. The index file holds the unprojected frame afterwards, is unchanged when it
  was there before, and a second call returns the same geometry. An id is present when a
  row of the index has it; the geometry stored for it is non-empty, the frame has a CRS,
  and when a reprojection is needed the projection library knows both codes.
\<close>

theorem resolve_known_id:
  assumes load: "load_or_build_az_huc10_index e w = (Inr gdf, w1)"
      and col: "huc10_column gdf = Inr vs"
      and rows: "zip vs (geometry_column gdf) = pre @ (huc10_id, g) # post"
      and first: "huc10_id \<notin> fst ` set pre"
      and nonempty: "g \<noteq> []"
      and native: "gdf_crs gdf = Some native"
      and known: "native \<noteq> crs \<longrightarrow> known_crs e native \<and> known_crs e crs"
  shows "\<exists>geom w2 layer.
           get_huc10_geometry e huc10_id crs w = (Inr geom, w1) \<and>
           coords geom \<noteq> [] \<and> geom_crs geom = crs \<and>
           coords geom = (if native = crs then g else map (proj e native crs) g) \<and>
           files w1 index_path = Some (GPKG layer gdf) \<and>
           (files w index_path \<noteq> None \<longrightarrow> files w1 = files w) \<and>
           get_huc10_geometry e huc10_id crs w1 = (Inr geom, w2) \<and>
           files w2 = files w1"
proof -
  let ?geom = "\<lparr>coords = (if native = crs then g else map (proj e native crs) g),
                 geom_crs = crs\<rparr>"
  have r1: "get_huc10_geometry e huc10_id crs w = (Inr ?geom, w1)"
    by (rule resolve_present [OF load col rows first native known])
  from load_again [OF load] obtain w2
    where again: "load_or_build_az_huc10_index e w1 = (Inr gdf, w2)" and f2: "files w2 = files w1"
    by blast
  have r2: "get_huc10_geometry e huc10_id crs w1 = (Inr ?geom, w2)"
    by (rule resolve_present [OF again col rows first native known])
  from load_success [OF load] obtain layer
    where kept: "files w1 index_path = Some (GPKG layer gdf)"
      and same: "files w index_path \<noteq> None \<longrightarrow> files w1 = files w"
    by auto
  have ne: "coords ?geom \<noteq> []"
    using nonempty by simp
  show ?thesis
    using r1 r2 f2 kept same ne by auto
qed

theorem resolve_known_id_witness:
  "load_or_build_az_huc10_index demo_env (world_cached demo_index) =
     (Inr demo_index,
      \<lparr>dirs = {[''data'']}, files = [index_path \<mapsto> GPKG ''huc10'' demo_index],
       trace = [Mkdir [''data''], ReadFile index_path]\<rparr>) \<and>
   get_huc10_geometry demo_env ''1502001603'' CRS_UTM (world_cached demo_index) =
     (Inr \<lparr>coords = [(3, 3), (4, 3), (4, 4)], geom_crs = CRS_UTM\<rparr>,
      \<lparr>dirs = {[''data'']}, files = [index_path \<mapsto> GPKG ''huc10'' demo_index],
       trace = [Mkdir [''data''], ReadFile index_path]\<rparr>)"
proof -
  let ?w1 = "\<lparr>dirs = {[''data'']}, files = [index_path \<mapsto> GPKG ''huc10'' demo_index],
       trace = [Mkdir [''data''], ReadFile index_path]\<rparr>"
  have load: "load_or_build_az_huc10_index demo_env (world_cached demo_index) = (Inr demo_index, ?w1)"
    by (simp add: load_or_build_az_huc10_index_def world_cached_def mkdir_def exists_def
        read_file_def DATA_DIR_def Let_def)
  have col: "huc10_column demo_index = Inr [''1502001602'', ''1502001603'']"
    by (simp add: huc10_column_def demo_index_def)
  have rows: "zip [''1502001602'', ''1502001603''] (geometry_column demo_index) =
      [(''1502001602'', [(0, 0), (1, 0), (1, 1)])] @ (''1502001603'', [(2, 2), (3, 2), (3, 3)]) # []"
    by (simp add: demo_index_def)
  have first: "''1502001603'' \<notin> fst ` set [(''1502001602'', [(0::real, 0::real), (1, 0), (1, 1)])]"
    by simp
  have ne: "[(2::real, 2::real), (3, 2), (3, 3)] \<noteq> []" by simp
  have native: "gdf_crs demo_index = Some 4326"
    by (simp add: demo_index_def)
  have known: "(4326::int) \<noteq> CRS_UTM \<longrightarrow> known_crs demo_env 4326 \<and> known_crs demo_env CRS_UTM"
    by (simp add: demo_env_def CRS_UTM_def)
  from resolve_known_id [OF load col rows first ne native known]
  show ?thesis
    using load by (auto simp: CRS_UTM_def demo_env_def)
qed

text \<open>
  Claim C9. When more than one entry of the index has the requested id,
  \<open>get_huc10_geometry\<close> returns the geometry of the first of them, whatever the later
  ones hold; no operation checks that ids are unique: the loader returned the frame with
  the repeated id, and the renaming of the build path keeps every row.
\<close>

theorem resolve_first_match:
  assumes load: "load_or_build_az_huc10_index e w = (Inr gdf, w1)"
      and col: "huc10_column gdf = Inr vs"
      and rows: "zip vs (geometry_column gdf) = pre @ (huc10_id, g) # post"
      and first: "huc10_id \<notin> fst ` set pre"
      and again: "(huc10_id, g') \<in> set post"
      and native: "gdf_crs gdf = Some native"
      and known: "native \<noteq> crs \<longrightarrow> known_crs e native \<and> known_crs e crs"
  shows "get_huc10_geometry e huc10_id crs w =
           (Inr \<lparr>coords = (if native = crs then g else map (proj e native crs) g),
                 geom_crs = crs\<rparr>, w1) \<and>
         (\<forall>m raw. map snd (columns (rename m raw)) = map snd (columns raw) \<and>
                  geometry_column (rename m raw) = geometry_column raw)"
  using resolve_present [OF load col rows first native known]
  by (simp add: rename_keeps_rows)

theorem resolve_first_match_witness:
  "load_or_build_az_huc10_index demo_env (world_cached dup_index) =
     (Inr dup_index,
      \<lparr>dirs = {[''data'']}, files = [index_path \<mapsto> GPKG ''huc10'' dup_index],
       trace = [Mkdir [''data''], ReadFile index_path]\<rparr>) \<and>
   zip [''1502001603'', ''1502001602'', ''1502001602''] (geometry_column dup_index) =
     [(''1502001603'', [(2, 2), (3, 2), (3, 3)])] @
     (''1502001602'', [(0, 0), (1, 0), (1, 1)]) # [(''1502001602'', [(5, 5), (6, 5), (6, 6)])] \<and>
   fst (get_huc10_geometry demo_env ''1502001602'' CRS_GEO (world_cached dup_index)) =
     Inr \<lparr>coords = [(0, 0), (1, 0), (1, 1)], geom_crs = CRS_GEO\<rparr>"
proof -
  let ?w1 = "\<lparr>dirs = {[''data'']}, files = [index_path \<mapsto> GPKG ''huc10'' dup_index],
       trace = [Mkdir [''data''], ReadFile index_path]\<rparr>"
  have load: "load_or_build_az_huc10_index demo_env (world_cached dup_index) = (Inr dup_index, ?w1)"
    by (simp add: load_or_build_az_huc10_index_def world_cached_def mkdir_def exists_def
        read_file_def DATA_DIR_def Let_def)
  have col: "huc10_column dup_index = Inr [''1502001603'', ''1502001602'', ''1502001602'']"
    by (simp add: huc10_column_def dup_index_def)
  have rows: "zip [''1502001603'', ''1502001602'', ''1502001602''] (geometry_column dup_index) =
     [(''1502001603'', [(2, 2), (3, 2), (3, 3)])] @
     (''1502001602'', [(0, 0), (1, 0), (1, 1)]) # [(''1502001602'', [(5, 5), (6, 5), (6, 6)])]"
    by (simp add: dup_index_def)
  have first: "''1502001602'' \<notin> fst ` set [(''1502001603'', [(2::real, 2::real), (3, 2), (3, 3)])]"
    by simp
  have again: "(''1502001602'', [(5::real, 5::real), (6, 5), (6, 6)]) \<in>
                 set [(''1502001602'', [(5, 5), (6, 5), (6, 6)])]"
    by simp
  have native: "gdf_crs dup_index = Some 4326"
    by (simp add: dup_index_def)
  have known: "(4326::int) \<noteq> CRS_GEO \<longrightarrow> known_crs demo_env 4326 \<and> known_crs demo_env CRS_GEO"
    by (simp add: CRS_GEO_def)
  from resolve_first_match [OF load col rows first again native known]
  show ?thesis
    using load rows by (simp add: CRS_GEO_def)
qed

section \<open>Loading the index\<close>

text \<open>
  The two paths of \<open>load_or_build_az_huc10_index\<close>. When the index file is on disk it
  returns the frame of that file, after one read and without a query to the boundary
  service. When nothing is at the path it queries the service once with the fixed filter
  \<open>States LIKE '%AZ%'\<close>, replaces the labels \<open>HUC10\<close> and \<open>Name\<close> where they occur
  (every other label and all values, geometries and the CRS kept), writes the whole frame
  to the one index file and returns it; this when the service answers and the write is not
  refused.
\<close>

lemma load_paths:
  "(files w index_path = Some (GPKG layer gdf) \<longrightarrow>
      (\<exists>w1. load_or_build_az_huc10_index e w = (Inr gdf, w1) \<and>
            files w1 = files w \<and>
            trace w1 = trace w @ [Mkdir [DATA_DIR], ReadFile index_path])) \<and>
   (\<not> exists w index_path \<and> wbd_bysql e WBD_LAYER CRS_GEO az_sql = Inr raw \<and>
    \<not> write_fails e index_path \<longrightarrow>
      (\<exists>w1 idx. load_or_build_az_huc10_index e w = (Inr idx, w1) \<and>
            map fst (columns idx) = map normal_label (map fst (columns raw)) \<and>
            map snd (columns idx) = map snd (columns raw) \<and>
            geometry_column idx = geometry_column raw \<and>
            gdf_crs idx = gdf_crs raw \<and>
            files w1 = (files w)(index_path \<mapsto> GPKG ''huc10'' idx) \<and>
            trace w1 = trace w @ [Mkdir [DATA_DIR], BoundaryQuery az_sql, WriteFile index_path])) \<and>
   az_sql = ''States LIKE '' @ [CHR 0x27] @ ''%AZ%'' @ [CHR 0x27]"
proof (intro conjI impI)
  assume "files w index_path = Some (GPKG layer gdf)"
  then show "\<exists>w1. load_or_build_az_huc10_index e w = (Inr gdf, w1) \<and>
            files w1 = files w \<and>
            trace w1 = trace w @ [Mkdir [DATA_DIR], ReadFile index_path]"
    by (simp add: load_hit mkdir_fields)
next
  assume "\<not> exists w index_path \<and> wbd_bysql e WBD_LAYER CRS_GEO az_sql = Inr raw \<and>
    \<not> write_fails e index_path"
  then show "\<exists>w1 idx. load_or_build_az_huc10_index e w = (Inr idx, w1) \<and>
            map fst (columns idx) = map normal_label (map fst (columns raw)) \<and>
            map snd (columns idx) = map snd (columns raw) \<and>
            geometry_column idx = geometry_column raw \<and>
            gdf_crs idx = gdf_crs raw \<and>
            files w1 = (files w)(index_path \<mapsto> GPKG ''huc10'' idx) \<and>
            trace w1 = trace w @ [Mkdir [DATA_DIR], BoundaryQuery az_sql, WriteFile index_path]"
    by (simp add: load_miss mkdir_fields rename_labels rename_keeps_rows)
next
  show "az_sql = ''States LIKE '' @ [CHR 0x27] @ ''%AZ%'' @ [CHR 0x27]"
    by (rule az_sql_text)
qed

text \<open>
  Claim C4. The loader is a read-through cache that, on the build path, normalises the
  column names to id, name and geometry before it persists and returns the index. The
  code does not do the second part, which the comment above its \<open>rename\<close> announces
  (keep only the relevant columns, and rename). On an empty cache, with the boundary
  service answering with the columns \<open>HUC10\<close>, \<open>Name\<close> and \<open>States\<close> (the column its
  own filter tests), the frame returned and the frame written both keep \<open>States\<close>; and
  with the name column labelled \<open>HU_10_NAME\<close> the index built has no column \<open>name\<close>.
\<close>

theorem build_keeps_other_columns:
  "fst (load_or_build_az_huc10_index demo_env world0) =
     Inr \<lparr>columns = [(''huc10'', [''1502001602'', ''1502001603'']),
                     (''name'', [''Upper'', ''Lower'']),
                     (''States'', [''AZ'', ''AZ,NM''])],
          geometry_column = [[(0, 0), (1, 0), (1, 1)], [(2, 2), (3, 2), (3, 3)]],
          gdf_crs = Some 4326\<rparr> \<and>
   files (snd (load_or_build_az_huc10_index demo_env world0)) index_path =
     Some (GPKG ''huc10''
       \<lparr>columns = [(''huc10'', [''1502001602'', ''1502001603'']),
                   (''name'', [''Upper'', ''Lower'']),
                   (''States'', [''AZ'', ''AZ,NM''])],
        geometry_column = [[(0, 0), (1, 0), (1, 1)], [(2, 2), (3, 2), (3, 3)]],
        gdf_crs = Some 4326\<rparr>) \<and>
   map fst (columns (projr (fst (load_or_build_az_huc10_index demo_env world0)))) =
     [''huc10'', ''name'', ''States''] \<and>
   map fst (columns (projr (fst (load_or_build_az_huc10_index env_alt_labels world0)))) =
     [''huc10'', ''HU_10_NAME'']"
proof -
  have cold: "\<not> exists world0 index_path"
    by (simp add: exists_def world0_def)
  have demo: "wbd_bysql demo_env WBD_LAYER CRS_GEO az_sql = Inr demo_raw"
    and demo_w: "\<not> write_fails demo_env index_path"
    by (simp_all add: demo_env_def)
  have alt: "wbd_bysql env_alt_labels WBD_LAYER CRS_GEO az_sql = Inr alt_raw"
    and alt_w: "\<not> write_fails env_alt_labels index_path"
    by (simp_all add: env_alt_labels_def demo_env_def)
  show ?thesis
    by (simp add: load_miss [OF cold demo demo_w] load_miss [OF cold alt alt_w]
        rename_def demo_raw_def alt_raw_def)
qed

text \<open>
  Claim C10. On a hit the loader returns the frame of the file as it is, with no renaming:
  the result is the same for every environment, so the columns returned depend on the file
  alone. The renaming is applied on the build path only, to the frame that is both written
  and returned.
\<close>

theorem load_hit_verbatim:
  "(files w index_path = Some (GPKG layer gdf) \<longrightarrow>
      fst (load_or_build_az_huc10_index e w) = Inr gdf \<and>
      trace (snd (load_or_build_az_huc10_index e w)) =
        trace w @ [Mkdir [DATA_DIR], ReadFile index_path]) \<and>
   (\<not> exists w index_path \<and> wbd_bysql e WBD_LAYER CRS_GEO az_sql = Inr raw \<and>
    \<not> write_fails e index_path \<longrightarrow>
      fst (load_or_build_az_huc10_index e w) =
        Inr (rename [''HUC10'' \<mapsto> ''huc10'', ''Name'' \<mapsto> ''name''] raw) \<and>
      files (snd (load_or_build_az_huc10_index e w)) index_path =
        Some (GPKG ''huc10'' (rename [''HUC10'' \<mapsto> ''huc10'', ''Name'' \<mapsto> ''name''] raw)))"
  by (simp add: load_hit load_miss mkdir_fields)

theorem load_hit_verbatim_witness:
  "files (world_cached upper_case_index) index_path = Some (GPKG ''huc10'' upper_case_index) \<and>
   fst (load_or_build_az_huc10_index demo_env (world_cached upper_case_index)) =
     Inr upper_case_index \<and>
   map fst (columns upper_case_index) = [''HUC10'', ''Name''] \<and>
   \<not> exists world0 index_path \<and>
   wbd_bysql demo_env WBD_LAYER CRS_GEO az_sql = Inr demo_raw \<and>
   \<not> write_fails demo_env index_path \<and>
   map fst (columns (projr (fst (load_or_build_az_huc10_index demo_env world0)))) =
     [''huc10'', ''name'', ''States'']"
proof -
  have hit: "files (world_cached upper_case_index) index_path = Some (GPKG ''huc10'' upper_case_index)"
    by (simp add: world_cached_def)
  have miss: "\<not> exists world0 index_path \<and>
      wbd_bysql demo_env WBD_LAYER CRS_GEO az_sql = Inr demo_raw \<and>
      \<not> write_fails demo_env index_path"
    by (simp add: exists_def world0_def demo_env_def)
  from load_hit_verbatim [of "world_cached upper_case_index" "''huc10''" upper_case_index demo_env demo_raw]
       load_hit_verbatim [of world0 "''huc10''" upper_case_index demo_env demo_raw]
  show ?thesis
    using hit miss
    by (simp add: rename_def demo_raw_def upper_case_index_def)
qed

section \<open>The source fetchers\<close>

lemma geom_ll_cases:
  "(if geometry_crs \<noteq> CRS_GEO
    then (case GeoSeries e geometry geometry_crs of
            Inl err \<Rightarrow> Inl err
          | Inr s \<Rightarrow> series_to_crs e s CRS_GEO)
    else Inr \<lparr>coords = geometry, geom_crs = geometry_crs\<rparr>) =
   (if geometry_crs \<noteq> CRS_GEO \<and> \<not> (known_crs e geometry_crs \<and> known_crs e CRS_GEO)
    then Inl CRSError else Inr (query_geometry e geometry geometry_crs))"
  by (auto simp: GeoSeries_def series_to_crs_def query_geometry_def)

lemma get_dem_cases:
  "get_dem_for_geometry e geometry geometry_crs w =
     (if geometry_crs \<noteq> CRS_GEO \<and> \<not> (known_crs e geometry_crs \<and> known_crs e CRS_GEO)
      then (Inl CRSError, w)
      else (case py3dep_get_dem e (coords (query_geometry e geometry geometry_crs)) DEM_RES_M of
              Inl err \<Rightarrow> Inl err
            | Inr dem \<Rightarrow> rio_reproject e dem CRS_UTM,
            w\<lparr>trace := trace w @ [SourceQuery Elevation (query_geometry e geometry geometry_crs)]\<rparr>))"
  unfolding get_dem_for_geometry_def geom_ll_cases
  by (simp add: Let_def split: sum.splits)

lemma get_flowlines_cases:
  "get_flowlines_for_geometry e geometry geometry_crs w =
     (if geometry_crs \<noteq> CRS_GEO \<and> \<not> (known_crs e geometry_crs \<and> known_crs e CRS_GEO)
      then (Inl CRSError, w)
      else (case nhdplushr_bygeom e ''flowline'' CRS_GEO
                   (coords (query_geometry e geometry geometry_crs)) CRS_GEO of
              Inl err \<Rightarrow> Inl err
            | Inr fl \<Rightarrow> frame_to_crs e fl CRS_UTM,
            w\<lparr>trace := trace w @ [SourceQuery Hydrography (query_geometry e geometry geometry_crs)]\<rparr>))"
  unfolding get_flowlines_for_geometry_def geom_ll_cases
  by (simp add: Let_def split: sum.splits)

lemma get_roads_cases:
  "get_roads_for_geometry e geometry geometry_crs w =
     (if geometry_crs \<noteq> CRS_GEO \<and> \<not> (known_crs e geometry_crs \<and> known_crs e CRS_GEO)
      then (Inl CRSError, w)
      else (case ox_graph_from_polygon e (coords (query_geometry e geometry geometry_crs))
                   ''all_public'' of
              Inl err \<Rightarrow> Inl err
            | Inr G \<Rightarrow>
                (case ox_graph_to_gdfs e G of
                   Inl err \<Rightarrow> Inl err
                 | Inr (nodes, edges) \<Rightarrow> frame_to_crs e edges CRS_UTM),
            w\<lparr>trace := trace w @ [SourceQuery Roads (query_geometry e geometry geometry_crs)]\<rparr>))"
  unfolding get_roads_for_geometry_def geom_ll_cases
  by (simp add: Let_def split: sum.splits prod.splits)

lemma frame_to_crs_tag:
  "frame_to_crs e gdf c = Inr gdf' \<Longrightarrow> gdf_crs gdf' = Some c"
  by (auto simp: frame_to_crs_def split: option.splits if_splits)

lemma frame_to_crs_rows:
  "frame_to_crs e gdf c = Inr gdf' \<Longrightarrow>
     length (geometry_column gdf') = length (geometry_column gdf) \<and> columns gdf' = columns gdf"
  by (auto simp: frame_to_crs_def split: option.splits if_splits)

lemma rio_reproject_tag:
  "rio_reproject e dem c = Inr dem' \<Longrightarrow> rio_crs dem' = Some c"
  by (auto simp: rio_reproject_def split: option.splits if_splits)

lemma utm_not_geo: "Some CRS_UTM \<noteq> Some CRS_GEO"
  by (simp add: CRS_UTM_def CRS_GEO_def)

text \<open>
  Claim C1. For every call of each of the three fetchers, with any geometry and any
  input code: the only effect is at most one query, whose geometry is in \<open>CRS_GEO\<close>
  (the input itself when the input code is \<open>CRS_GEO\<close>, transformed otherwise), and an
  artifact that is returned is tagged with \<open>CRS_UTM\<close>, which is not \<open>CRS_GEO\<close>, after
  exactly that query.
\<close>

theorem fetchers_crs:
  "(case get_dem_for_geometry e geometry geometry_crs w of
      (r, w1) \<Rightarrow>
        (trace w1 = trace w \<or>
         trace w1 = trace w @ [SourceQuery Elevation (query_geometry e geometry geometry_crs)]) \<and>
        (\<forall>a. r = Inr a \<longrightarrow>
           trace w1 = trace w @ [SourceQuery Elevation (query_geometry e geometry geometry_crs)] \<and>
           rio_crs a = Some CRS_UTM \<and> rio_crs a \<noteq> Some CRS_GEO)) \<and>
   (case get_flowlines_for_geometry e geometry geometry_crs w of
      (r, w1) \<Rightarrow>
        (trace w1 = trace w \<or>
         trace w1 = trace w @ [SourceQuery Hydrography (query_geometry e geometry geometry_crs)]) \<and>
        (\<forall>a. r = Inr a \<longrightarrow>
           trace w1 = trace w @ [SourceQuery Hydrography (query_geometry e geometry geometry_crs)] \<and>
           gdf_crs a = Some CRS_UTM \<and> gdf_crs a \<noteq> Some CRS_GEO)) \<and>
   (case get_roads_for_geometry e geometry geometry_crs w of
      (r, w1) \<Rightarrow>
        (trace w1 = trace w \<or>
         trace w1 = trace w @ [SourceQuery Roads (query_geometry e geometry geometry_crs)]) \<and>
        (\<forall>a. r = Inr a \<longrightarrow>
           trace w1 = trace w @ [SourceQuery Roads (query_geometry e geometry geometry_crs)] \<and>
           gdf_crs a = Some CRS_UTM \<and> gdf_crs a \<noteq> Some CRS_GEO)) \<and>
   geom_crs (query_geometry e geometry geometry_crs) = CRS_GEO \<and>
   (geometry_crs = CRS_GEO \<longrightarrow> coords (query_geometry e geometry geometry_crs) = geometry) \<and>
   (geometry_crs \<noteq> CRS_GEO \<longrightarrow>
      coords (query_geometry e geometry geometry_crs) =
        map (proj e geometry_crs CRS_GEO) geometry)"
proof (intro conjI)
  show "case get_dem_for_geometry e geometry geometry_crs w of
      (r, w1) \<Rightarrow>
        (trace w1 = trace w \<or>
         trace w1 = trace w @ [SourceQuery Elevation (query_geometry e geometry geometry_crs)]) \<and>
        (\<forall>a. r = Inr a \<longrightarrow>
           trace w1 = trace w @ [SourceQuery Elevation (query_geometry e geometry geometry_crs)] \<and>
           rio_crs a = Some CRS_UTM \<and> rio_crs a \<noteq> Some CRS_GEO)"
    using utm_not_geo
    by (auto simp: get_dem_cases dest: rio_reproject_tag split: sum.splits)
  show "case get_flowlines_for_geometry e geometry geometry_crs w of
      (r, w1) \<Rightarrow>
        (trace w1 = trace w \<or>
         trace w1 = trace w @ [SourceQuery Hydrography (query_geometry e geometry geometry_crs)]) \<and>
        (\<forall>a. r = Inr a \<longrightarrow>
           trace w1 = trace w @ [SourceQuery Hydrography (query_geometry e geometry geometry_crs)] \<and>
           gdf_crs a = Some CRS_UTM \<and> gdf_crs a \<noteq> Some CRS_GEO)"
    using utm_not_geo
    by (auto simp: get_flowlines_cases dest: frame_to_crs_tag split: sum.splits)
  show "case get_roads_for_geometry e geometry geometry_crs w of
      (r, w1) \<Rightarrow>
        (trace w1 = trace w \<or>
         trace w1 = trace w @ [SourceQuery Roads (query_geometry e geometry geometry_crs)]) \<and>
        (\<forall>a. r = Inr a \<longrightarrow>
           trace w1 = trace w @ [SourceQuery Roads (query_geometry e geometry geometry_crs)] \<and>
           gdf_crs a = Some CRS_UTM \<and> gdf_crs a \<noteq> Some CRS_GEO)"
    using utm_not_geo
    by (auto simp: get_roads_cases dest: frame_to_crs_tag split: sum.splits prod.splits)
qed (simp_all add: query_geometry_def)

theorem fetchers_crs_witness:
  "get_dem_for_geometry demo_env [(0, 0), (1, 0), (1, 1)] 26912 world0 =
     (Inr \<lparr>band = [[1, 2], [3, 4]], rio_crs = Some 32612\<rparr>,
      \<lparr>dirs = {}, files = Map.empty,
       trace = [SourceQuery Elevation \<lparr>coords = [(1, 1), (2, 1), (2, 2)], geom_crs = 4326\<rparr>]\<rparr>) \<and>
   get_flowlines_for_geometry demo_env [(0, 0), (1, 0), (1, 1)] 26912 world0 =
     (Inr \<lparr>columns = [(''gnis_name'', [''Salt River''])],
           geometry_column = [[(1, 1), (2, 2)]], gdf_crs = Some 32612\<rparr>,
      \<lparr>dirs = {}, files = Map.empty,
       trace = [SourceQuery Hydrography \<lparr>coords = [(1, 1), (2, 1), (2, 2)], geom_crs = 4326\<rparr>]\<rparr>) \<and>
   get_roads_for_geometry demo_env [(0, 0), (1, 0), (1, 1)] 4326 world0 =
     (Inr \<lparr>columns = [(''highway'', [''track''])],
           geometry_column = [[(1, 2), (2, 1)]], gdf_crs = Some 32612\<rparr>,
      \<lparr>dirs = {}, files = Map.empty,
       trace = [SourceQuery Roads \<lparr>coords = [(0, 0), (1, 0), (1, 1)], geom_crs = 4326\<rparr>]\<rparr>)"
  using fetchers_crs [where e = demo_env and geometry = "[(0, 0), (1, 0), (1, 1)]"
                         and geometry_crs = 26912 and w = world0]
        fetchers_crs [where e = demo_env and geometry = "[(0, 0), (1, 0), (1, 1)]"
                         and geometry_crs = 4326 and w = world0]
  by (simp add: get_dem_cases get_flowlines_cases get_roads_cases query_geometry_def
      demo_env_def world0_def CRS_GEO_def CRS_UTM_def rio_reproject_def frame_to_crs_def
      demo_dem_def demo_flow_def demo_edges_def)




section \<open>The download of one basin\<close>

lemma queries_only_refl: "queries_only w w"
  by (simp add: queries_only_def)

lemma queries_only_step:
  "queries_only w (w\<lparr>trace := trace w @ [SourceQuery s q]\<rparr>)"
  by (simp add: queries_only_def is_query_def)

lemma queries_only_trans:
  assumes "queries_only w1 w2" and "queries_only w2 w3"
  shows "queries_only w1 w3"
proof -
  from assms(1) obtain qs where t2: "trace w2 = trace w1 @ qs" and q2: "list_all is_query qs"
    unfolding queries_only_def by (metis append_take_drop_id)
  from assms(2) obtain rs where t3: "trace w3 = trace w2 @ rs" and q3: "list_all is_query rs"
    unfolding queries_only_def by (metis append_take_drop_id)
  show ?thesis
    using assms t2 q2 t3 q3 by (simp add: queries_only_def)
qed

lemma get_dem_frame:
  "get_dem_for_geometry e geometry geometry_crs w = (r, w1) \<Longrightarrow> queries_only w w1"
  by (auto simp: get_dem_cases queries_only_refl queries_only_step split: if_splits)

lemma get_flowlines_frame:
  "get_flowlines_for_geometry e geometry geometry_crs w = (r, w1) \<Longrightarrow> queries_only w w1"
  by (auto simp: get_flowlines_cases queries_only_refl queries_only_step split: if_splits)

lemma get_roads_frame:
  "get_roads_for_geometry e geometry geometry_crs w = (r, w1) \<Longrightarrow> queries_only w w1"
  by (auto simp: get_roads_cases queries_only_refl queries_only_step split: if_splits)

lemma main_fetch_frame:
  assumes "main_fetch e g w = (r, w1)"
  shows "queries_only w w1"
  using assms
  by (auto simp: main_fetch_def split: prod.splits sum.splits
      dest!: get_dem_frame get_flowlines_frame get_roads_frame
      intro: queries_only_trans)

lemma main_persist_cases:
  "main_persist e selected_huc10 d w =
     (let dir = [''data'', ''huc10_'' @ selected_huc10];
          dp = dir @ [''dem_30m.tif''];
          fp = dir @ [''flowlines.gpkg''];
          rp = dir @ [''roads.gpkg''];
          w1 = mkdir dir w
      in if write_fails e dp
         then (Inl OSError, w1\<lparr>trace := trace w1 @ [WriteFile dp]\<rparr>)
         else if write_fails e fp
         then (Inl OSError,
               w1\<lparr>files := (files w)(dp \<mapsto> GTiff (dem_utm d)),
                  trace := trace w1 @ [WriteFile dp, WriteFile fp]\<rparr>)
         else if write_fails e rp
         then (Inl OSError,
               w1\<lparr>files := (files w)(dp \<mapsto> GTiff (dem_utm d),
                                      fp \<mapsto> GPKG ''flowlines'' (flow_utm d)),
                  trace := trace w1 @ [WriteFile dp, WriteFile fp, WriteFile rp]\<rparr>)
         else (Inr \<lparr>out_dir = dir, dem_path = dp, flow_path = fp, roads_path = rp\<rparr>,
               w1\<lparr>files := (files w)(dp \<mapsto> GTiff (dem_utm d),
                                      fp \<mapsto> GPKG ''flowlines'' (flow_utm d),
                                      rp \<mapsto> GPKG ''roads'' (roads_utm d)),
                  trace := trace w1 @ [WriteFile dp, WriteFile fp, WriteFile rp]\<rparr>))"
  by (simp add: main_persist_def make_huc_output_dir_def save_dem_def save_flowlines_def
      save_roads_def to_raster_def to_file_def write_file_def Let_def DATA_DIR_def mkdir_fields)

lemma load_files_other:
  "p \<noteq> index_path \<Longrightarrow> files (snd (load_or_build_az_huc10_index e w)) p = files w p"
  by (auto simp: load_or_build_az_huc10_index_def Let_def read_file_def mkdir_fields
      fetch_az_huc10_index_def to_file_def write_file_def
      split: sum.splits prod.splits if_splits)

lemma get_huc10_geometry_world:
  "snd (get_huc10_geometry e huc10_id crs w) = snd (load_or_build_az_huc10_index e w)"
  by (auto simp: get_huc10_geometry_def Let_def
      split: prod.splits sum.splits list.splits option.splits if_splits)

lemma get_huc10_geometry_files_other:
  "p \<noteq> index_path \<Longrightarrow> files (snd (get_huc10_geometry e huc10_id crs w)) p = files w p"
  by (simp add: get_huc10_geometry_world load_files_other)

lemma resolve_cached_demo:
  assumes idx: "files w index_path = Some (GPKG layer demo_index)"
  shows "get_huc10_geometry e ''1502001602'' CRS_GEO w =
           (Inr \<lparr>coords = [(0, 0), (1, 0), (1, 1)], geom_crs = CRS_GEO\<rparr>,
            (mkdir [DATA_DIR] w)\<lparr>trace := trace w @ [Mkdir [DATA_DIR], ReadFile index_path]\<rparr>)"
proof -
  have col: "huc10_column demo_index = Inr [''1502001602'', ''1502001603'']"
    by (simp add: huc10_column_def demo_index_def)
  have geo: "geometry_column demo_index = [[(0, 0), (1, 0), (1, 1)], [(2, 2), (3, 2), (3, 3)]]"
    and native: "gdf_crs demo_index = Some CRS_GEO"
    by (simp_all add: demo_index_def CRS_GEO_def)
  show ?thesis
    by (simp add: get_huc10_geometry_def load_hit [OF idx] col geo native)
qed

text \<open>
  Claim C3. When the boundary was resolved and one of the three fetchers raises (the
  elevation fetcher; or the hydrography fetcher after elevation succeeded; or the road
  fetcher after both succeeded), the download ends with that error and no output set, in
  the state the failing fetcher left: since the boundary was resolved no directory was
  made and no file written, so none of \<open>make_huc_output_dir\<close>, \<open>save_dem\<close>,
  \<open>save_flowlines\<close>, \<open>save_roads\<close> ran.
\<close>

theorem fetch_failure_aborts:
  assumes res: "get_huc10_geometry e selected_huc10 CRS_GEO w = (Inr g, w0)"
      and fail:
        "get_dem_for_geometry e (coords g) CRS_GEO w0 = (Inl err, w') \<or>
         (\<exists>dem wa. get_dem_for_geometry e (coords g) CRS_GEO w0 = (Inr dem, wa) \<and>
            (get_flowlines_for_geometry e (coords g) CRS_GEO wa = (Inl err, w') \<or>
             (\<exists>flow wb. get_flowlines_for_geometry e (coords g) CRS_GEO wa = (Inr flow, wb) \<and>
                get_roads_for_geometry e (coords g) CRS_GEO wb = (Inl err, w'))))"
  shows "main_download e selected_huc10 w = (Inl err, w') \<and> queries_only w0 w'"
proof -
  from fail have mf: "main_fetch e g w0 = (Inl err, w')"
    by (auto simp: main_fetch_def)
  have "main_download e selected_huc10 w = (Inl err, w')"
    by (simp add: main_download_def res mf)
  with main_fetch_frame [OF mf] show ?thesis by simp
qed

theorem fetch_failure_aborts_witness:
  "get_huc10_geometry env_roads_down ''1502001602'' CRS_GEO (world_cached demo_index) =
     (Inr \<lparr>coords = [(0, 0), (1, 0), (1, 1)], geom_crs = CRS_GEO\<rparr>,
      \<lparr>dirs = {[''data'']}, files = [index_path \<mapsto> GPKG ''huc10'' demo_index],
       trace = [Mkdir [''data''], ReadFile index_path]\<rparr>) \<and>
   main_download env_roads_down ''1502001602'' (world_cached demo_index) =
     (Inl (ServiceError ''ConnectionError''),
      \<lparr>dirs = {[''data'']}, files = [index_path \<mapsto> GPKG ''huc10'' demo_index],
       trace = [Mkdir [''data''], ReadFile index_path,
                SourceQuery Elevation \<lparr>coords = [(0, 0), (1, 0), (1, 1)], geom_crs = CRS_GEO\<rparr>,
                SourceQuery Hydrography \<lparr>coords = [(0, 0), (1, 0), (1, 1)], geom_crs = CRS_GEO\<rparr>,
                SourceQuery Roads \<lparr>coords = [(0, 0), (1, 0), (1, 1)], geom_crs = CRS_GEO\<rparr>]\<rparr>)"
proof -
  let ?g = "\<lparr>coords = [(0::real, 0::real), (1, 0), (1, 1)], geom_crs = CRS_GEO\<rparr>"
  let ?w0 = "\<lparr>dirs = {[''data'']}, files = [index_path \<mapsto> GPKG ''huc10'' demo_index],
       trace = [Mkdir [''data''], ReadFile index_path]\<rparr>"
  let ?wa = "?w0\<lparr>trace := trace ?w0 @ [SourceQuery Elevation ?g]\<rparr>"
  let ?wb = "?wa\<lparr>trace := trace ?wa @ [SourceQuery Hydrography ?g]\<rparr>"
  let ?w' = "?wb\<lparr>trace := trace ?wb @ [SourceQuery Roads ?g]\<rparr>"
  have load: "load_or_build_az_huc10_index env_roads_down (world_cached demo_index) =
      (Inr demo_index, ?w0)"
    by (simp add: load_or_build_az_huc10_index_def world_cached_def mkdir_def exists_def
        read_file_def DATA_DIR_def Let_def)
  have res: "get_huc10_geometry env_roads_down ''1502001602'' CRS_GEO (world_cached demo_index) =
      (Inr ?g, ?w0)"
  proof -
    have col: "huc10_column demo_index = Inr [''1502001602'', ''1502001603'']"
      by (simp add: huc10_column_def demo_index_def)
    have geo: "geometry_column demo_index = [[(0, 0), (1, 0), (1, 1)], [(2, 2), (3, 2), (3, 3)]]"
      and native: "gdf_crs demo_index = Some CRS_GEO"
      by (simp_all add: demo_index_def CRS_GEO_def)
    show ?thesis
      by (simp add: get_huc10_geometry_def load col geo native)
  qed
  have dem: "get_dem_for_geometry env_roads_down (coords ?g) CRS_GEO ?w0 =
      (Inr \<lparr>band = [[1, 2], [3, 4]], rio_crs = Some CRS_UTM\<rparr>, ?wa)"
    by (simp add: get_dem_cases query_geometry_def env_roads_down_def demo_env_def
        rio_reproject_def demo_dem_def CRS_UTM_def)
  have flow: "get_flowlines_for_geometry env_roads_down (coords ?g) CRS_GEO ?wa =
      (Inr \<lparr>columns = [(''gnis_name'', [''Salt River''])],
            geometry_column = [[(1, 1), (2, 2)]], gdf_crs = Some CRS_UTM\<rparr>, ?wb)"
    by (simp add: get_flowlines_cases query_geometry_def env_roads_down_def demo_env_def
        frame_to_crs_def demo_flow_def CRS_UTM_def)
  have roads: "get_roads_for_geometry env_roads_down (coords ?g) CRS_GEO ?wb =
      (Inl (ServiceError ''ConnectionError''), ?w')"
    by (simp add: get_roads_cases query_geometry_def env_roads_down_def demo_env_def)
  from dem flow roads have fail:
    "get_dem_for_geometry env_roads_down (coords ?g) CRS_GEO ?w0 =
       (Inl (ServiceError ''ConnectionError''), ?w') \<or>
     (\<exists>dem wa. get_dem_for_geometry env_roads_down (coords ?g) CRS_GEO ?w0 = (Inr dem, wa) \<and>
        (get_flowlines_for_geometry env_roads_down (coords ?g) CRS_GEO wa =
           (Inl (ServiceError ''ConnectionError''), ?w') \<or>
         (\<exists>flow wb. get_flowlines_for_geometry env_roads_down (coords ?g) CRS_GEO wa = (Inr flow, wb) \<and>
            get_roads_for_geometry env_roads_down (coords ?g) CRS_GEO wb =
              (Inl (ServiceError ''ConnectionError''), ?w'))))"
    by simp
  from fetch_failure_aborts [OF res fail]
  show ?thesis
    using res by simp
qed

text \<open>
  Claim C7. The paths of persistence depend on the id alone: a run that succeeds returns
  the directory \<open>data/huc10_<id>\<close> and the three fixed file names in it, whatever the
  environment, the artifacts and the state, and writes exactly those three files; a second
  run for the same id returns the same paths; and a run succeeds whenever none of the
  three writes is refused.
\<close>

theorem persist_paths_deterministic:
  "(main_persist e selected_huc10 d w = (Inr s, w') \<longrightarrow>
      s = \<lparr>out_dir = [''data'', ''huc10_'' @ selected_huc10],
           dem_path = [''data'', ''huc10_'' @ selected_huc10, ''dem_30m.tif''],
           flow_path = [''data'', ''huc10_'' @ selected_huc10, ''flowlines.gpkg''],
           roads_path = [''data'', ''huc10_'' @ selected_huc10, ''roads.gpkg'']\<rparr> \<and>
      files w' = (files w)
        ([''data'', ''huc10_'' @ selected_huc10, ''dem_30m.tif''] \<mapsto> GTiff (dem_utm d),
         [''data'', ''huc10_'' @ selected_huc10, ''flowlines.gpkg''] \<mapsto>
            GPKG ''flowlines'' (flow_utm d),
         [''data'', ''huc10_'' @ selected_huc10, ''roads.gpkg''] \<mapsto>
            GPKG ''roads'' (roads_utm d))) \<and>
   (main_persist e selected_huc10 d w = (Inr s, w') \<and>
    main_persist e2 selected_huc10 d2 w' = (Inr s2, w2) \<longrightarrow> s2 = s) \<and>
   (\<not> write_fails e [''data'', ''huc10_'' @ selected_huc10, ''dem_30m.tif''] \<and>
    \<not> write_fails e [''data'', ''huc10_'' @ selected_huc10, ''flowlines.gpkg''] \<and>
    \<not> write_fails e [''data'', ''huc10_'' @ selected_huc10, ''roads.gpkg''] \<longrightarrow>
      (\<exists>s w'. main_persist e selected_huc10 d w = (Inr s, w')))"
  by (auto simp: main_persist_cases Let_def mkdir_fields split: if_splits)

theorem persist_paths_deterministic_witness:
  "fst (main_persist demo_env ''1502001602'' demo_fetched world0) =
     Inr \<lparr>out_dir = [''data'', ''huc10_1502001602''],
          dem_path = [''data'', ''huc10_1502001602'', ''dem_30m.tif''],
          flow_path = [''data'', ''huc10_1502001602'', ''flowlines.gpkg''],
          roads_path = [''data'', ''huc10_1502001602'', ''roads.gpkg'']\<rparr> \<and>
   fst (main_persist demo_env ''1502001602'' demo_fetched
          (snd (main_persist demo_env ''1502001602'' demo_fetched world0))) =
     Inr \<lparr>out_dir = [''data'', ''huc10_1502001602''],
          dem_path = [''data'', ''huc10_1502001602'', ''dem_30m.tif''],
          flow_path = [''data'', ''huc10_1502001602'', ''flowlines.gpkg''],
          roads_path = [''data'', ''huc10_1502001602'', ''roads.gpkg'']\<rparr> \<and>
   files (snd (main_persist demo_env ''1502001602'' demo_fetched world0))
     [''data'', ''huc10_1502001602'', ''dem_30m.tif''] = Some (GTiff old_dem)"
proof -
  let ?s = "\<lparr>out_dir = [''data'', ''huc10_1502001602''],
          dem_path = [''data'', ''huc10_1502001602'', ''dem_30m.tif''],
          flow_path = [''data'', ''huc10_1502001602'', ''flowlines.gpkg''],
          roads_path = [''data'', ''huc10_1502001602'', ''roads.gpkg'']\<rparr>"
  have nofail: "\<And>p. \<not> write_fails demo_env p"
    by (simp add: demo_env_def)
  obtain w1 where first: "main_persist demo_env ''1502001602'' demo_fetched world0 = (Inr ?s, w1)"
    by (simp add: main_persist_cases Let_def nofail)
  obtain w2 where second: "main_persist demo_env ''1502001602'' demo_fetched w1 = (Inr ?s, w2)"
    by (simp add: main_persist_cases Let_def nofail)
  from persist_paths_deterministic
         [where e = demo_env and ?selected_huc10.0 = "''1502001602''" and d = demo_fetched
            and w = world0 and s = ?s and w' = w1 and ?e2.0 = demo_env and ?d2.0 = demo_fetched
            and ?s2.0 = ?s and ?w2.0 = w2]
  show ?thesis
    using first second by (simp add: demo_fetched_def)
qed

text \<open>
  Claim C8, as stated, fails. With output of an earlier run on disk and a disk that
  refuses the flowlines file, the download fails, yet the elevation file of the earlier run
  has been replaced by the new one: \<open>save_dem\<close> had already run.
\<close>

theorem failed_run_overwrites_counterexample:
  "fst (main_download env_flow_unwritable ''1502001602'' world_prior) = Inl OSError \<and>
   files world_prior [''data'', ''huc10_1502001602'', ''dem_30m.tif''] =
     Some (GTiff \<lparr>band = [[9, 9], [9, 9]], rio_crs = Some 32612\<rparr>) \<and>
   files (snd (main_download env_flow_unwritable ''1502001602'' world_prior))
     [''data'', ''huc10_1502001602'', ''dem_30m.tif''] =
     Some (GTiff \<lparr>band = [[1, 2], [3, 4]], rio_crs = Some 32612\<rparr>)"
proof -
  let ?g = "\<lparr>coords = [(0::real, 0::real), (1, 0), (1, 1)], geom_crs = CRS_GEO\<rparr>"
  let ?w0 = "world_prior\<lparr>trace := [Mkdir [''data''], ReadFile index_path]\<rparr>"
  let ?wa = "?w0\<lparr>trace := trace ?w0 @ [SourceQuery Elevation ?g]\<rparr>"
  let ?wb = "?wa\<lparr>trace := trace ?wa @ [SourceQuery Hydrography ?g]\<rparr>"
  let ?wc = "?wb\<lparr>trace := trace ?wb @ [SourceQuery Roads ?g]\<rparr>"
  let ?dem = "\<lparr>band = [[1::real, 2], [3, 4]], rio_crs = Some CRS_UTM\<rparr>"
  let ?flow = "\<lparr>columns = [(''gnis_name'', [''Salt River''])],
            geometry_column = [[(1::real, 1::real), (2, 2)]], gdf_crs = Some CRS_UTM\<rparr>"
  let ?roads = "\<lparr>columns = [(''highway'', [''track''])],
            geometry_column = [[(1::real, 2::real), (2, 1)]], gdf_crs = Some CRS_UTM\<rparr>"
  have idx: "files world_prior index_path = Some (GPKG ''huc10'' demo_index)"
    by (simp add: world_prior_def index_path_def DATA_DIR_def)
  have w0: "(mkdir [DATA_DIR] world_prior)
              \<lparr>trace := trace world_prior @ [Mkdir [DATA_DIR], ReadFile index_path]\<rparr> = ?w0"
    by (simp add: mkdir_def world_prior_def DATA_DIR_def insert_absorb)
  have load: "load_or_build_az_huc10_index env_flow_unwritable world_prior = (Inr demo_index, ?w0)"
    unfolding load_hit [OF idx] w0 by (rule refl)
  have res: "get_huc10_geometry env_flow_unwritable ''1502001602'' CRS_GEO world_prior = (Inr ?g, ?w0)"
  proof -
    have col: "huc10_column demo_index = Inr [''1502001602'', ''1502001603'']"
      by (simp add: huc10_column_def demo_index_def)
    have geo: "geometry_column demo_index = [[(0, 0), (1, 0), (1, 1)], [(2, 2), (3, 2), (3, 3)]]"
      and native: "gdf_crs demo_index = Some CRS_GEO"
      by (simp_all add: demo_index_def CRS_GEO_def)
    show ?thesis
      by (simp add: get_huc10_geometry_def load col geo native)
  qed
  have dem: "get_dem_for_geometry env_flow_unwritable (coords ?g) CRS_GEO ?w0 = (Inr ?dem, ?wa)"
    by (simp add: get_dem_cases query_geometry_def env_flow_unwritable_def demo_env_def
        rio_reproject_def demo_dem_def CRS_UTM_def)
  have flow: "get_flowlines_for_geometry env_flow_unwritable (coords ?g) CRS_GEO ?wa = (Inr ?flow, ?wb)"
    by (simp add: get_flowlines_cases query_geometry_def env_flow_unwritable_def demo_env_def
        frame_to_crs_def demo_flow_def CRS_UTM_def)
  have roads: "get_roads_for_geometry env_flow_unwritable (coords ?g) CRS_GEO ?wb = (Inr ?roads, ?wc)"
    by (simp add: get_roads_cases query_geometry_def env_flow_unwritable_def demo_env_def
        frame_to_crs_def demo_edges_def CRS_UTM_def)
  have fetch: "main_fetch env_flow_unwritable ?g ?w0 =
      (Inr \<lparr>dem_utm = ?dem, flow_utm = ?flow, roads_utm = ?roads\<rparr>, ?wc)"
    using dem flow roads by (simp add: main_fetch_def)
  have fails: "write_fails env_flow_unwritable [''data'', ''huc10_1502001602'', ''flowlines.gpkg'']"
    and writes: "\<not> write_fails env_flow_unwritable [''data'', ''huc10_1502001602'', ''dem_30m.tif'']"
    by (simp_all add: env_flow_unwritable_def)
  have result: "fst (main_download env_flow_unwritable ''1502001602'' world_prior) = Inl OSError"
    and after: "files (snd (main_download env_flow_unwritable ''1502001602'' world_prior))
       [''data'', ''huc10_1502001602'', ''dem_30m.tif''] = Some (GTiff ?dem)"
    using fails writes
    by (simp_all add: main_download_def res fetch main_persist_cases Let_def)
  have before: "files world_prior [''data'', ''huc10_1502001602'', ''dem_30m.tif''] =
     Some (GTiff \<lparr>band = [[9, 9], [9, 9]], rio_crs = Some 32612\<rparr>)"
    by (simp add: world_prior_def old_dem_def index_path_def)
  show ?thesis
    using result after before by (simp add: CRS_UTM_def)
qed

text \<open>
  Claim C8, amended. A download that fails in the resolution of the boundary or in one
  of the three fetches leaves every file other than the index file as it was, the prior
  output of that id included.
\<close>

theorem failed_fetch_keeps_outputs:
  assumes fail:
    "fst (get_huc10_geometry e selected_huc10 CRS_GEO w) = Inl err \<or>
     (\<exists>g w0. get_huc10_geometry e selected_huc10 CRS_GEO w = (Inr g, w0) \<and>
             fst (main_fetch e g w0) = Inl err)"
  shows "fst (main_download e selected_huc10 w) = Inl err \<and>
         (\<forall>p. p \<noteq> index_path \<longrightarrow>
              files (snd (main_download e selected_huc10 w)) p = files w p)"
  using fail
proof
  assume r: "fst (get_huc10_geometry e selected_huc10 CRS_GEO w) = Inl err"
  then have "main_download e selected_huc10 w =
      (Inl err, snd (get_huc10_geometry e selected_huc10 CRS_GEO w))"
    by (cases "get_huc10_geometry e selected_huc10 CRS_GEO w") (simp add: main_download_def)
  then show ?thesis
    by (simp add: get_huc10_geometry_files_other)
next
  assume "\<exists>g w0. get_huc10_geometry e selected_huc10 CRS_GEO w = (Inr g, w0) \<and>
             fst (main_fetch e g w0) = Inl err"
  then obtain g w0 w' where res: "get_huc10_geometry e selected_huc10 CRS_GEO w = (Inr g, w0)"
    and mf: "main_fetch e g w0 = (Inl err, w')"
    by (metis prod.collapse)
  have run: "main_download e selected_huc10 w = (Inl err, w')"
    by (simp add: main_download_def res mf)
  from main_fetch_frame [OF mf] have "files w' = files w0"
    by (simp add: queries_only_def)
  moreover have "\<forall>p. p \<noteq> index_path \<longrightarrow> files w0 p = files w p"
    using get_huc10_geometry_files_other [of _ e selected_huc10 CRS_GEO w] by (simp add: res)
  ultimately show ?thesis
    by (simp add: run)
qed

theorem failed_fetch_keeps_outputs_witness:
  "fst (main_download env_roads_down ''1502001602'' world_prior) =
     Inl (ServiceError ''ConnectionError'') \<and>
   files (snd (main_download env_roads_down ''1502001602'' world_prior))
     [''data'', ''huc10_1502001602'', ''dem_30m.tif''] = Some (GTiff old_dem) \<and>
   files (snd (main_download env_roads_down ''1502001602'' world_prior))
     [''data'', ''huc10_1502001602'', ''flowlines.gpkg''] = Some (GPKG ''flowlines'' empty_frame) \<and>
   files (snd (main_download env_roads_down ''1502001602'' world_prior))
     [''data'', ''huc10_1502001602'', ''roads.gpkg''] = Some (GPKG ''roads'' empty_frame)"
proof -
  let ?g = "\<lparr>coords = [(0::real, 0::real), (1, 0), (1, 1)], geom_crs = CRS_GEO\<rparr>"
  let ?w0 = "(mkdir [DATA_DIR] world_prior)
               \<lparr>trace := trace world_prior @ [Mkdir [DATA_DIR], ReadFile index_path]\<rparr>"
  have idx: "files world_prior index_path = Some (GPKG ''huc10'' demo_index)"
    by (simp add: world_prior_def index_path_def DATA_DIR_def)
  have res: "get_huc10_geometry env_roads_down ''1502001602'' CRS_GEO world_prior = (Inr ?g, ?w0)"
    by (rule resolve_cached_demo [OF idx])
  have mf: "fst (main_fetch env_roads_down ?g ?w0) = Inl (ServiceError ''ConnectionError'')"
    by (simp add: main_fetch_def get_dem_cases get_flowlines_cases get_roads_cases
        query_geometry_def env_roads_down_def demo_env_def rio_reproject_def frame_to_crs_def
        demo_dem_def demo_flow_def CRS_UTM_def)
  have fail:
    "fst (get_huc10_geometry env_roads_down ''1502001602'' CRS_GEO world_prior) =
       Inl (ServiceError ''ConnectionError'') \<or>
     (\<exists>g w0. get_huc10_geometry env_roads_down ''1502001602'' CRS_GEO world_prior = (Inr g, w0) \<and>
             fst (main_fetch env_roads_down g w0) = Inl (ServiceError ''ConnectionError''))"
    using res mf by simp
  have paths: "[''data'', ''huc10_1502001602'', ''dem_30m.tif''] \<noteq> index_path"
    "[''data'', ''huc10_1502001602'', ''flowlines.gpkg''] \<noteq> index_path"
    "[''data'', ''huc10_1502001602'', ''roads.gpkg''] \<noteq> index_path"
    by (simp_all add: index_path_def)
  have prior: "files world_prior [''data'', ''huc10_1502001602'', ''dem_30m.tif''] = Some (GTiff old_dem)"
    "files world_prior [''data'', ''huc10_1502001602'', ''flowlines.gpkg''] = Some (GPKG ''flowlines'' empty_frame)"
    "files world_prior [''data'', ''huc10_1502001602'', ''roads.gpkg''] = Some (GPKG ''roads'' empty_frame)"
    by (simp_all add: world_prior_def index_path_def)
  from failed_fetch_keeps_outputs [OF fail]
  show ?thesis
    using paths prior by simp
qed

end
